theory Spec2Isabelle
  imports Main
begin

section \<open>The Windows registration shim of flutter_app_updater\<close>

text \<open>
  The sources are \<^verbatim>\<open>windows/flutter_app_updater_plugin.h\<close> (the declaration of the class
  \<^verbatim>\<open>FlutterAppUpdaterPlugin\<close>) and \<^verbatim>\<open>windows/flutter_app_updater_plugin_c_api.cpp\<close>
  (the exported C function). The bodies of the class's member functions and the
  Flutter framework (\<^verbatim>\<open>flutter::PluginRegistrarManager\<close>,
  \<^verbatim>\<open>flutter::PluginRegistrarWindows\<close>) are not among the sources.
\<close>

subsection \<open>Calls into the host process\<close>

text \<open>
  A call that acts on the state \<open>'w\<close> of the host process either faults (\<open>Inl\<close>: the
  process does not survive the call, as when C++ dereferences a pointer to no object) or
  returns a value together with the state it leaves behind.
\<close>

type_synonym ('e, 'a, 'w) host_call = "'w \<Rightarrow> 'e + 'a \<times> 'w"

text \<open>
  C++ evaluates a call's argument before the call and stops at the first fault:
  \<open>then_call f g\<close> runs \<open>f\<close>, and runs \<open>g\<close> on its value in the state \<open>f\<close> left.
\<close>

definition then_call ::
  "('e, 'a, 'w) host_call \<Rightarrow> ('a \<Rightarrow> ('e, 'b, 'w) host_call) \<Rightarrow> ('e, 'b, 'w) host_call" where
  "then_call f g w = (case f w of Inl e \<Rightarrow> Inl e | Inr (a, w') \<Rightarrow> g a w')"

subsection \<open>The C-API adapter (flutter_app_updater_plugin_c_api.cpp, lines 7 to 12)\<close>

text \<open>
  \<^verbatim>\<open>
  void FlutterAppUpdaterPluginCApiRegisterWithRegistrar(
      FlutterDesktopPluginRegistrarRef registrar) {
    flutter_app_updater::FlutterAppUpdaterPlugin::RegisterWithRegistrar(
        flutter::PluginRegistrarManager::GetInstance()
            ->GetRegistrar<flutter::PluginRegistrarWindows>(registrar));
  }
  \<close>
  The three functions the adapter calls are not defined in the sources, so they are
  parameters: \<open>GetInstance\<close> returns the process-wide manager \<open>'m\<close>, \<open>GetRegistrar\<close>
  resolves a handle \<open>'h\<close> to a registrar \<open>'r\<close>, and \<open>RegisterWithRegistrar\<close> is the
  plugin's registration entry point. The adapter returns \<^verbatim>\<open>void\<close>.
\<close>

definition registrar_argument ::
  "('e, 'm, 'w) host_call \<Rightarrow> ('m \<Rightarrow> 'h \<Rightarrow> ('e, 'r, 'w) host_call) \<Rightarrow> 'h \<Rightarrow> ('e, 'r, 'w) host_call" where
  \<comment> \<open>lines 10 and 11: the argument expression\<close>
  "registrar_argument GetInstance GetRegistrar registrar =
     then_call GetInstance (\<lambda>manager. GetRegistrar manager registrar)"

definition FlutterAppUpdaterPluginCApiRegisterWithRegistrar ::
  "('e, 'm, 'w) host_call \<Rightarrow> ('m \<Rightarrow> 'h \<Rightarrow> ('e, 'r, 'w) host_call) \<Rightarrow>
   ('r \<Rightarrow> ('e, unit, 'w) host_call) \<Rightarrow> 'h \<Rightarrow> ('e, unit, 'w) host_call" where
  "FlutterAppUpdaterPluginCApiRegisterWithRegistrar GetInstance GetRegistrar RegisterWithRegistrar registrar =
     then_call (registrar_argument GetInstance GetRegistrar registrar) RegisterWithRegistrar"

subsection \<open>The adapter as the specification words it\<close>

text \<open>
  The specification: the adapter "resolves the handle to the richer registrar type via a
  process-wide registrar-manager lookup, then delegates to RegisterWithRegistrar".
  \<open>spec_resolve_handle\<close> is the lookup and \<open>spec_adapter\<close> the two steps, each written
  out with the state it passes on.
\<close>

definition spec_resolve_handle ::
  "('e, 'm, 'w) host_call \<Rightarrow> ('m \<Rightarrow> 'h \<Rightarrow> ('e, 'r, 'w) host_call) \<Rightarrow> 'h \<Rightarrow> ('e, 'r, 'w) host_call" where
  "spec_resolve_handle GetInstance GetRegistrar h w =
     (case GetInstance w of
        Inl e \<Rightarrow> Inl e
      | Inr (manager, w1) \<Rightarrow> GetRegistrar manager h w1)"

definition spec_adapter ::
  "('e, 'm, 'w) host_call \<Rightarrow> ('m \<Rightarrow> 'h \<Rightarrow> ('e, 'r, 'w) host_call) \<Rightarrow>
   ('r \<Rightarrow> ('e, unit, 'w) host_call) \<Rightarrow> 'h \<Rightarrow> ('e, unit, 'w) host_call" where
  "spec_adapter GetInstance GetRegistrar RegisterWithRegistrar h w =
     (case spec_resolve_handle GetInstance GetRegistrar h w of
        Inl e \<Rightarrow> Inl e
      | Inr (resolved, w2) \<Rightarrow> RegisterWithRegistrar resolved w2)"

subsection \<open>The plugin class (flutter_app_updater_plugin.h, lines 11 to 27)\<close>

text \<open>
  The class declares a static function, a constructor, a virtual destructor, the deleted
  copy operations and \<^verbatim>\<open>HandleMethodCall\<close>; it declares no data member. The state
  the plugin class gives an instance is therefore a type with a single value. (The base
  class \<^verbatim>\<open>flutter::Plugin\<close> belongs to the host framework.)
\<close>

datatype FlutterAppUpdaterPlugin = FlutterAppUpdaterPlugin_object

type_synonym addr = nat

text \<open>
  \<^verbatim>\<open>FlutterDesktopPluginRegistrarRef\<close> is an opaque pointer; \<open>0\<close> is the null pointer.
\<close>

type_synonym FlutterDesktopPluginRegistrarRef = nat

datatype host_fault = Invalid_registrar_ref

text \<open>
  Modelled from the spec: the registrar type \<^verbatim>\<open>flutter::PluginRegistrarWindows\<close> is not
  among the sources. As far as the specification uses it, a registrar binds channel names
  to call handlers and owns the plugin instances registered with it ("lifetime bound to
  the host-managed registrar"). A handler is the \<^verbatim>\<open>HandleMethodCall\<close> of one instance, so
  it is recorded as the address of that instance; a channel name has at most one handler.
\<close>

record registrar =
  handlers :: "string \<rightharpoonup> addr"
  plugins :: "addr list"

definition fresh_registrar :: registrar where
  "fresh_registrar = \<lparr>handlers = Map.empty, plugins = []\<rparr>"

text \<open>
  The host process: the plugin objects constructed so far (the address of an object is
  its index) and the registrars alive in it, keyed by their handles.
\<close>

record process =
  instances :: "FlutterAppUpdaterPlugin list"
  registrars :: "FlutterDesktopPluginRegistrarRef \<rightharpoonup> registrar"

definition empty_process :: process where
  "empty_process = \<lparr>instances = [], registrars = Map.empty\<rparr>"

text \<open>
  Modelled from the spec: the body of the constructor is not among the sources (line 15 of
  the header only declares it). It stands for the step "constructs a plugin instance" of
  the registration entry point, for an instance that "owns no persistent data":
  constructing adds one object to the process and returns its address.
\<close>

definition new_FlutterAppUpdaterPlugin :: "process \<Rightarrow> addr \<times> process" where
  "new_FlutterAppUpdaterPlugin p =
     (length (instances p), p\<lparr>instances := instances p @ [FlutterAppUpdaterPlugin_object]\<rparr>)"

subsection \<open>A fake registrar manager\<close>

text \<open>
  Modelled from the spec: \<^verbatim>\<open>flutter::PluginRegistrarManager\<close> is host framework code, not
  among the sources. The specification describes it as "an explicit registry/lookup table
  keyed by opaque identifiers, process-wide", and asks for tests of the adapter against
  "a fake registrar-manager". This one keeps its table in the process state: the lookup
  of a handle returns the registrar entered for it, entering a fresh one at the first
  lookup; the null handle denotes no registrar, and resolving it is a fault.
\<close>

definition fake_GetInstance :: "(host_fault, unit, process) host_call" where
  "fake_GetInstance p = Inr ((), p)"

definition fake_GetRegistrar ::
  "unit \<Rightarrow> FlutterDesktopPluginRegistrarRef \<Rightarrow>
   (host_fault, FlutterDesktopPluginRegistrarRef, process) host_call" where
  "fake_GetRegistrar manager h p =
     (if h = 0 then Inl Invalid_registrar_ref
      else case registrars p h of
             Some r \<Rightarrow> Inr (h, p)
           | None \<Rightarrow> Inr (h, p\<lparr>registrars := (registrars p)(h \<mapsto> fresh_registrar)\<rparr>))"

subsection \<open>The registration entry point\<close>

text \<open>
  Modelled from the spec: the body of \<^verbatim>\<open>FlutterAppUpdaterPlugin::RegisterWithRegistrar\<close>
  (declared on line 13 of the header) is not among the sources. The specification:
  "input: a non-null reference to a registrar scoped to one application-engine instance.
  Effect: constructs a plugin instance, creates a channel bound to a fixed,
  implementation-chosen channel name, and installs the instance's dispatch entry point as
  the channel's call handler. No return value; side effect is channel registration with
  the host." The channel name is not shown in the sources and is a parameter. A pointer to
  a registrar is the key of that registrar in the process; a pointer to no registrar of
  the process is outside the stated input and is a fault.
\<close>

definition RegisterWithRegistrar ::
  "string \<Rightarrow> FlutterDesktopPluginRegistrarRef \<Rightarrow> (host_fault, unit, process) host_call" where
  "RegisterWithRegistrar channel_name registrar p =
     (case registrars p registrar of
        None \<Rightarrow> Inl Invalid_registrar_ref
      | Some r \<Rightarrow>
          (case new_FlutterAppUpdaterPlugin p of
             (plugin, p1) \<Rightarrow>
               Inr ((), p1\<lparr>registrars := (registrars p1)(registrar \<mapsto>
                   r\<lparr>handlers := (handlers r)(channel_name \<mapsto> plugin),
                     plugins := plugins r @ [plugin]\<rparr>)\<rparr>)))"

subsection \<open>Example states\<close>

definition process_with_registrar :: process where
  "process_with_registrar = \<lparr>instances = [], registrars = [1 \<mapsto> fresh_registrar]\<rparr>"

definition process_after_registration :: process where
  "process_after_registration =
     \<lparr>instances = [FlutterAppUpdaterPlugin_object],
      registrars = [1 \<mapsto> \<lparr>handlers = [''flutter_app_updater'' \<mapsto> 0], plugins = [0]\<rparr>]\<rparr>"

section \<open>Properties\<close>

subsection \<open>The adapter\<close>

lemma then_call_Inr: "f w = Inr (a, w') \<Longrightarrow> then_call f g w = g a w'"
  by (simp add: then_call_def)

lemma registrar_argument_is_lookup:
  "registrar_argument GetInstance GetRegistrar h w = spec_resolve_handle GetInstance GetRegistrar h w"
  by (simp add: registrar_argument_def spec_resolve_handle_def then_call_def)

lemma adapter_is_spec_adapter:
  "FlutterAppUpdaterPluginCApiRegisterWithRegistrar GetInstance GetRegistrar Reg h w =
   spec_adapter GetInstance GetRegistrar Reg h w"
  by (simp add: FlutterAppUpdaterPluginCApiRegisterWithRegistrar_def spec_adapter_def
      registrar_argument_is_lookup then_call_def)

lemma fake_lookup_of_new_handle:
  "spec_resolve_handle fake_GetInstance fake_GetRegistrar 1 empty_process =
   Inr (1, process_with_registrar)"
  by (simp add: spec_resolve_handle_def fake_GetInstance_def fake_GetRegistrar_def
      empty_process_def process_with_registrar_def)

lemma registration_example:
  "RegisterWithRegistrar ''flutter_app_updater'' 1 process_with_registrar =
   Inr ((), process_after_registration)"
  by (simp add: RegisterWithRegistrar_def process_with_registrar_def
      process_after_registration_def new_FlutterAppUpdaterPlugin_def fresh_registrar_def)

text \<open>
  C1. For every valid handle \<open>h\<close>, one the registrar-manager lookup resolves to a registrar
  \<open>r\<close> (leaving the process in \<open>w'\<close>), the adapter called on \<open>h\<close> has the outcome of
  \<open>RegisterWithRegistrar\<close> called directly on \<open>r\<close> in \<open>w'\<close>: the same returned value and
  the same final state, so the adapter does the lookup, the delegation and nothing else.
  It agrees with the adapter as the specification words it. This holds for every manager,
  lookup and registration function.
\<close>

theorem adapter_refines_lookup_then_delegate:
  assumes "spec_resolve_handle GetInstance GetRegistrar h w = Inr (r, w')"
  shows "FlutterAppUpdaterPluginCApiRegisterWithRegistrar GetInstance GetRegistrar Reg h w = Reg r w' \<and>
         FlutterAppUpdaterPluginCApiRegisterWithRegistrar GetInstance GetRegistrar Reg h w =
           spec_adapter GetInstance GetRegistrar Reg h w"
proof
  have "registrar_argument GetInstance GetRegistrar h w = Inr (r, w')"
    using assms by (simp add: registrar_argument_is_lookup)
  then show "FlutterAppUpdaterPluginCApiRegisterWithRegistrar GetInstance GetRegistrar Reg h w = Reg r w'"
    unfolding FlutterAppUpdaterPluginCApiRegisterWithRegistrar_def
    by (rule then_call_Inr)
next
  show "FlutterAppUpdaterPluginCApiRegisterWithRegistrar GetInstance GetRegistrar Reg h w =
        spec_adapter GetInstance GetRegistrar Reg h w"
    by (rule adapter_is_spec_adapter)
qed

text \<open>
  The theorem at the fake registrar manager: handle \<open>1\<close> in the empty process resolves to a
  fresh registrar, and the adapter leaves that registrar with one instance and one bound
  channel.
\<close>

theorem adapter_refines_lookup_then_delegate_witness:
  "spec_resolve_handle fake_GetInstance fake_GetRegistrar 1 empty_process =
     Inr (1, process_with_registrar) \<and>
   FlutterAppUpdaterPluginCApiRegisterWithRegistrar fake_GetInstance fake_GetRegistrar
     (RegisterWithRegistrar ''flutter_app_updater'') 1 empty_process =
     Inr ((), process_after_registration)"
proof -
  note h = fake_lookup_of_new_handle
  have "FlutterAppUpdaterPluginCApiRegisterWithRegistrar fake_GetInstance fake_GetRegistrar
          (RegisterWithRegistrar ''flutter_app_updater'') 1 empty_process =
        RegisterWithRegistrar ''flutter_app_updater'' 1 process_with_registrar"
    using adapter_refines_lookup_then_delegate [OF h, of "RegisterWithRegistrar ''flutter_app_updater''"]
    by (rule conjunct1)
  also have "\<dots> = Inr ((), process_after_registration)"
    by (rule registration_example)
  finally have r: "FlutterAppUpdaterPluginCApiRegisterWithRegistrar fake_GetInstance fake_GetRegistrar
          (RegisterWithRegistrar ''flutter_app_updater'') 1 empty_process =
        Inr ((), process_after_registration)" .
  from h r show ?thesis by (rule conjI)
qed



subsection \<open>Registration\<close>

text \<open>
  C3. For every registrar \<open>r\<close> of the process, one call of \<open>RegisterWithRegistrar\<close> on it
  returns no value and changes the process in this way only: one plugin instance is
  constructed (at the next address), and \<open>r\<close> owns it and has the one channel of the fixed
  name bound to that instance's handler. The bound channels of \<open>r\<close> grow by that name and
  no other, and every other registrar is as before.
\<close>

theorem RegisterWithRegistrar_registers_once:
  assumes "registrars p registrar = Some r"
  shows "RegisterWithRegistrar channel_name registrar p =
           Inr ((), p\<lparr>instances := instances p @ [FlutterAppUpdaterPlugin_object],
                      registrars := (registrars p)(registrar \<mapsto>
                        r\<lparr>handlers := (handlers r)(channel_name \<mapsto> length (instances p)),
                          plugins := plugins r @ [length (instances p)]\<rparr>)\<rparr>) \<and>
         dom ((handlers r)(channel_name \<mapsto> length (instances p))) =
           insert channel_name (dom (handlers r))"
  using assms by (simp add: RegisterWithRegistrar_def new_FlutterAppUpdaterPlugin_def)

text \<open>
  The theorem at a fresh registrar: after the call the process holds one instance, and the
  registrar has exactly one bound channel, handled by that instance.
\<close>

theorem RegisterWithRegistrar_registers_once_witness:
  "registrars process_with_registrar 1 = Some fresh_registrar \<and>
   RegisterWithRegistrar ''flutter_app_updater'' 1 process_with_registrar =
     Inr ((), \<lparr>instances = [FlutterAppUpdaterPlugin_object],
               registrars = [1 \<mapsto> \<lparr>handlers = [''flutter_app_updater'' \<mapsto> 0], plugins = [0]\<rparr>]\<rparr>) \<and>
   dom [''flutter_app_updater'' \<mapsto> (0::nat)] = {''flutter_app_updater''}"
proof -
  have h: "registrars process_with_registrar 1 = Some fresh_registrar"
    by (simp add: process_with_registrar_def)
  from RegisterWithRegistrar_registers_once [OF h, of "''flutter_app_updater''"]
  show ?thesis
    using h by (simp add: process_with_registrar_def fresh_registrar_def)
qed

end
